theory Spec2Isabelle
  imports Main "HOL-Library.Word" "HOL-Library.Sublist"
begin

section \<open>JavaScript values\<close>

text \<open>
  A JavaScript string is a sequence of 16-bit code units. Text written in the source
  with characters below U+0100 is embedded code unit by code unit.
\<close>

type_synonym jschar = "16 word"
type_synonym jsstring = "jschar list"

definition js_lit :: "string \<Rightarrow> jsstring" where
  "js_lit s = map (\<lambda>c. of_nat (of_char c)) s"

text \<open>
  The numbers that occur are the results of \<^verbatim>\<open>parseInt\<close> on a run of decimal digits:
  \<open>Exact n\<close> is the integer \<open>n\<close>, which a double holds exactly up to \<open>2 ^ 53\<close>;
  \<open>Rounded n\<close> is the double nearest to a larger integer \<open>n\<close>.
\<close>

datatype jsnumber = Exact nat | Rounded nat

text \<open>
  Values as \<^verbatim>\<open>JSON.parse\<close> produces them, and \<^verbatim>\<open>undefined\<close> for a missing property.
  An object is the association list of its own properties.
\<close>

datatype jsvalue =
    Undefined
  | Null
  | Boolean bool
  | Number jsnumber
  | String jsstring
  | Array "jsvalue list"
  | Object "(jsstring \<times> jsvalue) list"

text \<open>What a \<^verbatim>\<open>throw\<close> or a rejected promise carries.\<close>

datatype exn = Error jsstring | TypeError | Rejected jsvalue

text \<open>Decimal text of a number, as a template literal inserts it.\<close>

fun show_nat :: "nat \<Rightarrow> jsstring" where
  "show_nat n =
     (if n < 10 then [of_nat (48 + n)]
      else show_nat (n div 10) @ [of_nat (48 + n mod 10)])"

section \<open>String primitives used by the response parser\<close>

definition isLineTerminator :: "jschar \<Rightarrow> bool" where
  "isLineTerminator c \<longleftrightarrow> c = 0x000A \<or> c = 0x000D \<or> c = 0x2028 \<or> c = 0x2029"

definition isWhiteSpace :: "jschar \<Rightarrow> bool" where
  "isWhiteSpace c \<longleftrightarrow>
     c = 0x0009 \<or> c = 0x000B \<or> c = 0x000C \<or> c = 0x0020 \<or> c = 0x00A0 \<or> c = 0x1680 \<or>
     (0x2000 \<le> c \<and> c \<le> 0x200A) \<or> c = 0x202F \<or> c = 0x205F \<or> c = 0x3000 \<or> c = 0xFEFF"

text \<open>\<^verbatim>\<open>String.prototype.trim\<close>: white space and line terminators go, at both ends.\<close>

definition trim :: "jsstring \<Rightarrow> jsstring" where
  "trim s =
     (let strip = dropWhile (\<lambda>c. isWhiteSpace c \<or> isLineTerminator c)
      in rev (strip (rev (strip s))))"

text \<open>\<^verbatim>\<open>s.split(sep)\<close> for a one-character separator; the empty string gives one empty piece.\<close>

fun split :: "jschar \<Rightarrow> jsstring \<Rightarrow> jsstring list" where
  "split sep [] = [] # []"
| "split sep (c # cs) =
     (if c = sep then [] # split sep cs
      else (case split sep cs of [] \<Rightarrow> [c] # [] | w # ws \<Rightarrow> (c # w) # ws))"

definition isDigit :: "jschar \<Rightarrow> bool" where
  "isDigit c \<longleftrightarrow> 0x0030 \<le> c \<and> c \<le> 0x0039"

text \<open>\<^verbatim>\<open>parseInt(ds, 10)\<close> on a non-empty run of decimal digits.\<close>

definition parseInt :: "jsstring \<Rightarrow> jsnumber" where
  "parseInt ds =
     (let n = foldl (\<lambda>a d. 10 * a + (unat d - 48)) 0 ds
      in if n \<le> 2 ^ 53 then Exact n else Rounded n)"

subsection \<open>The three regular expressions\<close>

text \<open>
  Each pattern of \<^verbatim>\<open>parseResponse\<close> is a literal followed by one capture group, matched
  without flags: \<^verbatim>\<open>.\<close> stops at a line terminator and \<^verbatim>\<open>$\<close> holds at the end of the
  input only. \<open>lazy_line\<close> is \<^verbatim>\<open>(.*?)(?:\n|$)\<close> tried at the head of its argument: the
  group grows one character at a time until a line feed or the end follows, and the
  attempt fails when another line terminator comes first.
\<close>

fun lazy_line :: "jsstring \<Rightarrow> jsstring option" where
  "lazy_line [] = Some []"
| "lazy_line (c # cs) =
     (if c = 0x000A then Some []
      else if isLineTerminator c then None
      else map_option ((#) c) (lazy_line cs))"

text \<open>\<^verbatim>\<open>(\d+)\<close> at the head of the argument: the longest run of digits, at least one.\<close>

definition digit_run :: "jsstring \<Rightarrow> jsstring option" where
  "digit_run s = (let ds = takeWhile isDigit s in if ds = [] then None else Some ds)"

definition match_here :: "jsstring \<Rightarrow> (jsstring \<Rightarrow> jsstring option) \<Rightarrow> jsstring \<Rightarrow> jsstring option" where
  "match_here lit grp s = (if prefix lit s then grp (drop (length lit) s) else None)"

text \<open>
  \<^verbatim>\<open>content.match(/lit(grp)/)\<close>: the leftmost start at which literal and group match;
  the result is the text of group 1, or \<open>None\<close> for \<^verbatim>\<open>null\<close>.
\<close>

fun regexp_match :: "jsstring \<Rightarrow> (jsstring \<Rightarrow> jsstring option) \<Rightarrow> jsstring \<Rightarrow> jsstring option" where
  "regexp_match lit grp [] = match_here lit grp []"
| "regexp_match lit grp (c # cs) =
     (case match_here lit grp (c # cs) of
        Some g \<Rightarrow> Some g
      | None \<Rightarrow> regexp_match lit grp cs)"

section \<open>The response parser (index.tsx)\<close>

record result =
  description :: jsstring
  keywords' :: "jsstring list"
  tokensUsed :: jsnumber

text \<open>
  The parameter is declared a string, and the caller passes whatever the service's
  reply holds at \<^verbatim>\<open>choices[0].message.content\<close>; on anything that is not a string the call
  \<^verbatim>\<open>content.match\<close> throws.
\<close>

definition parseResponse :: "jsvalue \<Rightarrow> exn + result" where
  "parseResponse content =
     (case content of
        String s \<Rightarrow>
          (let descriptionMatch = regexp_match (js_lit ''Description: '') lazy_line s;
               keywordsMatch = regexp_match (js_lit ''Keywords: '') lazy_line s;
               tokensUsedMatch = regexp_match (js_lit ''Tokens used: '') digit_run s
           in Inr \<lparr>description = (case descriptionMatch of Some g \<Rightarrow> trim g | None \<Rightarrow> []),
                   keywords' = (case keywordsMatch of
                                  Some g \<Rightarrow> map trim (split 0x002C g)
                                | None \<Rightarrow> []),
                   tokensUsed = (case tokensUsedMatch of
                                   Some g \<Rightarrow> parseInt g
                                 | None \<Rightarrow> Exact 0)\<rparr>)
      | _ \<Rightarrow> Inl TypeError)"

section \<open>The proxy endpoint\<close>

record api_request =
  req_method :: "jsstring option"
  req_body :: jsvalue

record api_response =
  res_status :: nat
  res_json :: jsvalue

text \<open>
  What one run of the handler does: the response it sends, what it writes to the
  server console, and the payloads it hands to the completion service.
\<close>

record handled =
  sent :: api_response
  logged :: "(jsstring \<times> exn) list"
  created :: "jsvalue list"

text \<open>
  \<open>create\<close> stands for \<^verbatim>\<open>openai.chat.completions.create\<close>: the reply of the service,
  or what the call throws.
\<close>

definition handler :: "(jsvalue \<Rightarrow> exn + jsvalue) \<Rightarrow> api_request \<Rightarrow> handled" where
  "handler create req =
     (if req_method req \<noteq> Some (js_lit ''POST'') then
        \<lparr>sent = \<lparr>res_status = 405,
                 res_json = Object [(js_lit ''error'', String (js_lit ''Method not allowed''))]\<rparr>,
         logged = [],
         created = []\<rparr>
      else
        (case create (req_body req) of
           Inr response \<Rightarrow>
             \<lparr>sent = \<lparr>res_status = 200, res_json = response\<rparr>,
              logged = [],
              created = [req_body req]\<rparr>
         | Inl error \<Rightarrow>
             \<lparr>sent = \<lparr>res_status = 500,
                      res_json = Object [(js_lit ''error'',
                                          String (js_lit ''Error processing your request''))]\<rparr>,
              logged = [(js_lit ''OpenAI API error:'', error)],
              created = [req_body req]\<rparr>))"

section \<open>The page state\<close>

definition MAX_IMAGES :: nat where "MAX_IMAGES = 5"
definition MIN_KEYWORDS :: nat where "MIN_KEYWORDS = 40"
definition MAX_KEYWORDS :: nat where "MAX_KEYWORDS = 50"
definition MAX_DESCRIPTION_CHARS :: nat where "MAX_DESCRIPTION_CHARS = 200"

record jsfile =
  fileName :: jsstring
  fileType :: jsstring
  fileBytes :: "8 word list"

record image =
  file' :: jsfile
  preview :: jsstring

record toast =
  toast_title :: jsstring
  toast_description :: jsstring
  toast_variant :: "jsstring option"

text \<open>
  The component's three state variables, the value shown by the file input element
  (\<open>None\<close> when no element is mounted), and what the page has emitted so far:
  notifications and console errors. \<open>'r\<close> is the type of a result entry.
\<close>

record 'r page =
  images :: "image list"
  results :: "'r list"
  isLoading :: bool
  fileInput :: "jsstring option"
  toasts :: "toast list"
  console :: "(jsstring \<times> exn) list"

definition too_many_images :: toast where
  "too_many_images =
     \<lparr>toast_title = js_lit ''Error'',
      toast_description =
        js_lit ''You can only upload a maximum of '' @ show_nat MAX_IMAGES @ js_lit '' images.'',
      toast_variant = Some (js_lit ''destructive'')\<rparr>"

section \<open>Selecting, removing and clearing\<close>

text \<open>
  index.tsx. \<open>createObjectURL\<close> is \<^verbatim>\<open>URL.createObjectURL\<close> during this call; the state
  setters take effect in the order they are called.
\<close>

definition handleImageUpload :: "(jsfile \<Rightarrow> jsstring) \<Rightarrow> jsfile list \<Rightarrow> 'r page \<Rightarrow> 'r page" where
  "handleImageUpload createObjectURL files pg =
     (if length files > MAX_IMAGES then pg\<lparr>toasts := toasts pg @ [too_many_images]\<rparr>
      else
        (let pg1 = pg\<lparr>images := []\<rparr>;
             pg2 = pg1\<lparr>results := []\<rparr>;
             newImages = map (\<lambda>f. \<lparr>file' = f, preview = createObjectURL f\<rparr>) files
         in pg2\<lparr>images := newImages\<rparr>))"

text \<open>Index.jsx: the selection is added to the images already there.\<close>

definition handleImageUpload_jsx :: "(jsfile \<Rightarrow> jsstring) \<Rightarrow> jsfile list \<Rightarrow> 'r page \<Rightarrow> 'r page" where
  "handleImageUpload_jsx createObjectURL files pg =
     (if length (images pg) + length files > MAX_IMAGES
      then pg\<lparr>toasts := toasts pg @ [too_many_images]\<rparr>
      else
        (let newImages = map (\<lambda>f. \<lparr>file' = f, preview = createObjectURL f\<rparr>) files
         in pg\<lparr>images := images pg @ newImages\<rparr>))"

text \<open>\<^verbatim>\<open>xs.filter((x, i) => p(x, i))\<close>.\<close>

definition filter_index :: "('a \<Rightarrow> nat \<Rightarrow> bool) \<Rightarrow> 'a list \<Rightarrow> 'a list" where
  "filter_index p xs = map snd (filter (\<lambda>(i, x). p x i) (enumerate 0 xs))"

text \<open>The same in both files. The index is a JavaScript number, here an integer.\<close>

definition removeImage :: "int \<Rightarrow> 'r page \<Rightarrow> 'r page" where
  "removeImage index pg =
     (let pg1 = pg\<lparr>images := filter_index (\<lambda>_ i. int i \<noteq> index) (images pg)\<rparr>
      in pg1\<lparr>results := filter_index (\<lambda>_ i. int i \<noteq> index) (results pg1)\<rparr>)"

text \<open>index.tsx.\<close>

definition clearAll :: "'r page \<Rightarrow> 'r page" where
  "clearAll pg =
     (let pg1 = pg\<lparr>images := []\<rparr>;
          pg2 = pg1\<lparr>results := []\<rparr>
      in (case fileInput pg2 of
            Some _ \<Rightarrow> pg2\<lparr>fileInput := Some []\<rparr>
          | None \<Rightarrow> pg2))"

text \<open>Index.jsx.\<close>

definition clearAll_jsx :: "'r page \<Rightarrow> 'r page" where
  "clearAll_jsx pg =
     (let pg1 = pg\<lparr>images := []\<rparr>
      in pg1\<lparr>results := []\<rparr>)"

section \<open>Generating (index.tsx)\<close>

record fetch_request =
  url :: jsstring
  http_method :: jsstring
  headers :: "(jsstring \<times> jsstring) list"
  body :: jsvalue

text \<open>\<open>json\<close> is what \<^verbatim>\<open>response.json()\<close> resolves to, or what it rejects with.\<close>

record fetch_response =
  ok :: bool
  json :: "exn + jsvalue"

text \<open>
  The browser as the page uses it: reading a file as a data URL and \<^verbatim>\<open>fetch\<close>. Both
  depend on, and change, a world \<open>'w\<close> outside the page; each awaited promise is taken
  to settle, with a value (\<open>Inr\<close>) or a rejection (\<open>Inl\<close>).
\<close>

record 'w browser =
  readAsDataURL :: "jsfile \<Rightarrow> 'w \<Rightarrow> (exn + jsstring) \<times> 'w"
  fetch :: "fetch_request \<Rightarrow> 'w \<Rightarrow> (exn + fetch_response) \<times> 'w"

definition convertToBase64 :: "'w browser \<Rightarrow> jsfile \<Rightarrow> 'w \<Rightarrow> (exn + jsstring) \<times> 'w" where
  "convertToBase64 env f w = readAsDataURL env f w"

definition prompt :: jsstring where
  "prompt =
     js_lit ''Generate a description and keywords (minimum '' @ show_nat MIN_KEYWORDS @
     js_lit '', maximum '' @ show_nat MAX_KEYWORDS @
     js_lit '') for an image with no mention of trademarks. The description should be concise (up to '' @
     show_nat MAX_DESCRIPTION_CHARS @
     js_lit '' characters). Keywords should follow SEO best practices and be in 1-word format, as relevant to the image as possible.''"

definition payload :: "jsstring \<Rightarrow> jsvalue" where
  "payload base64Image =
     Object
       [(js_lit ''model'', String (js_lit ''gpt-4-vision-preview'')),
        (js_lit ''messages'',
           Array
             [Object
                [(js_lit ''role'', String (js_lit ''user'')),
                 (js_lit ''content'',
                    Array
                      [Object [(js_lit ''type'', String (js_lit ''text'')),
                               (js_lit ''text'', String prompt)],
                       Object [(js_lit ''type'', String (js_lit ''image_url'')),
                               (js_lit ''image_url'',
                                  Object [(js_lit ''url'', String base64Image)])]])]]),
        (js_lit ''max_tokens'', Number (Exact 300))]"

text \<open>The request body is kept as the value that \<^verbatim>\<open>JSON.stringify\<close> writes out.\<close>

definition generate_request :: "jsstring \<Rightarrow> fetch_request" where
  "generate_request base64Image =
     \<lparr>url = js_lit ''/api/generate'',
      http_method = js_lit ''POST'',
      headers = [(js_lit ''Content-Type'', js_lit ''application/json'')],
      body = payload base64Image\<rparr>"

text \<open>
  \<^verbatim>\<open>v.name\<close> for a name that no prototype defines, and \<^verbatim>\<open>v[0]\<close>: both throw on
  \<^verbatim>\<open>undefined\<close> and \<^verbatim>\<open>null\<close> and give \<^verbatim>\<open>undefined\<close> where nothing is stored.
\<close>

fun get_prop :: "jsstring \<Rightarrow> jsvalue \<Rightarrow> exn + jsvalue" where
  "get_prop name Undefined = Inl TypeError"
| "get_prop name Null = Inl TypeError"
| "get_prop name (Object kvs) = Inr (case map_of kvs name of Some v \<Rightarrow> v | None \<Rightarrow> Undefined)"
| "get_prop name v = Inr Undefined"

fun first_elem :: "jsvalue \<Rightarrow> exn + jsvalue" where
  "first_elem Undefined = Inl TypeError"
| "first_elem Null = Inl TypeError"
| "first_elem (Array []) = Inr Undefined"
| "first_elem (Array (x # xs)) = Inr x"
| "first_elem (String []) = Inr Undefined"
| "first_elem (String (c # cs)) = Inr (String [c])"
| "first_elem (Object kvs) = Inr (case map_of kvs (js_lit ''0'') of Some v \<Rightarrow> v | None \<Rightarrow> Undefined)"
| "first_elem v = Inr Undefined"

text \<open>\<^verbatim>\<open>data.choices[0].message.content\<close>.\<close>

definition content_of :: "jsvalue \<Rightarrow> exn + jsvalue" where
  "content_of data =
     (case get_prop (js_lit ''choices'') data of
        Inl e \<Rightarrow> Inl e
      | Inr choices \<Rightarrow>
          (case first_elem choices of
             Inl e \<Rightarrow> Inl e
           | Inr choice \<Rightarrow>
               (case get_prop (js_lit ''message'') choice of
                  Inl e \<Rightarrow> Inl e
                | Inr message \<Rightarrow> get_prop (js_lit ''content'') message)))"

text \<open>
  The body of the \<^verbatim>\<open>try\<close> block for one image: \<open>Inr\<close> is the entry pushed onto
  \<^verbatim>\<open>newResults\<close>, \<open>Inl\<close> is what the \<^verbatim>\<open>catch\<close> clause receives.
\<close>

definition process_image :: "'w browser \<Rightarrow> image \<Rightarrow> 'w \<Rightarrow> (exn + result) \<times> 'w" where
  "process_image env img w =
     (case convertToBase64 env (file' img) w of
        (Inl e, w1) \<Rightarrow> (Inl e, w1)
      | (Inr base64Image, w1) \<Rightarrow>
          (case fetch env (generate_request base64Image) w1 of
             (Inl e, w2) \<Rightarrow> (Inl e, w2)
           | (Inr response, w2) \<Rightarrow>
               (if \<not> ok response
                then (Inl (Error (js_lit ''Failed to generate description and keywords'')), w2)
                else
                  (case json response of
                     Inl e \<Rightarrow> (Inl e, w2)
                   | Inr data \<Rightarrow>
                       (case content_of data of
                          Inl e \<Rightarrow> (Inl e, w2)
                        | Inr content \<Rightarrow> (parseResponse content, w2))))))"

definition failed_to_process :: toast where
  "failed_to_process =
     \<lparr>toast_title = js_lit ''Error'',
      toast_description = js_lit ''Failed to process image. Please try again.'',
      toast_variant = Some (js_lit ''destructive'')\<rparr>"

text \<open>The \<^verbatim>\<open>for\<close> loop, with \<^verbatim>\<open>newResults\<close> as accumulator.\<close>

fun for_images ::
  "'w browser \<Rightarrow> image list \<Rightarrow> result list \<Rightarrow> 'r page \<Rightarrow> 'w \<Rightarrow> result list \<times> 'r page \<times> 'w" where
  "for_images env [] newResults pg w = (newResults, pg, w)"
| "for_images env (img # rest) newResults pg w =
     (case process_image env img w of
        (Inr r, w') \<Rightarrow> for_images env rest (newResults @ [r]) pg w'
      | (Inl error, w') \<Rightarrow>
          for_images env rest newResults
            (pg\<lparr>console := console pg @ [(js_lit ''Error processing image:'', error)],
                toasts := toasts pg @ [failed_to_process]\<rparr>) w')"

text \<open>
  The function is asynchronous. Up to its first \<^verbatim>\<open>await\<close> it runs at once: it sets the
  loading flag and holds on to the image list of the render it was created in. The rest
  runs later, against the page as it is by then.
\<close>

definition generate_start :: "result page \<Rightarrow> image list \<times> result page" where
  "generate_start pg = (images pg, pg\<lparr>isLoading := True\<rparr>)"

definition generate_resume ::
  "'w browser \<Rightarrow> image list \<Rightarrow> result page \<Rightarrow> 'w \<Rightarrow> result page \<times> 'w" where
  "generate_resume env captured pg w =
     (case for_images env captured [] pg w of
        (newResults, pg', w') \<Rightarrow> (pg'\<lparr>results := newResults, isLoading := False\<rparr>, w'))"

text \<open>The whole call, when no other handler runs before it has finished.\<close>

definition generateDescriptionAndKeywords ::
  "'w browser \<Rightarrow> result page \<Rightarrow> 'w \<Rightarrow> result page \<times> 'w" where
  "generateDescriptionAndKeywords env pg w =
     (case generate_start pg of (captured, pg1) \<Rightarrow> generate_resume env captured pg1 w)"

text \<open>
  The outcome of the pipeline for each image in turn, each started in the world the
  one before has left.
\<close>

fun outcomes :: "'w browser \<Rightarrow> image list \<Rightarrow> 'w \<Rightarrow> (exn + result) list" where
  "outcomes env [] w = []"
| "outcomes env (img # rest) w =
     (case process_image env img w of (out, w') \<Rightarrow> out # outcomes env rest w')"

section \<open>Generating (Index.jsx)\<close>

record placeholder =
  p_description :: jsstring
  p_keywords :: "jsstring list"

definition generateDescriptionAndKeywords_jsx :: "placeholder page \<Rightarrow> placeholder page" where
  "generateDescriptionAndKeywords_jsx pg =
     (let pg1 = pg\<lparr>isLoading := True\<rparr>;
          placeholderResults =
            map (\<lambda>index.
                   \<lparr>p_description =
                      js_lit ''Placeholder description for image '' @ show_nat (index + 1) @
                      js_lit ''. This is a sample text to demonstrate the layout and functionality of the application.'',
                    p_keywords = map (\<lambda>i. js_lit ''keyword'' @ show_nat (i + 1)) [0..<40]\<rparr>)
                [0..<length (images pg)];
          pg2 = pg1\<lparr>results := placeholderResults\<rparr>
      in pg2\<lparr>isLoading := False\<rparr>)"

section \<open>Sequences of operations\<close>

text \<open>
  One constructor per operation of the page, with what the browser supplies to it.
  Each operation runs to its end before the next one starts.
\<close>

datatype 'w op =
    Select "jsfile \<Rightarrow> jsstring" "jsfile list"
  | Remove int
  | Generate "'w browser" 'w
  | Clear

fun apply_op :: "'w op \<Rightarrow> result page \<Rightarrow> result page" where
  "apply_op (Select createObjectURL files) pg = handleImageUpload createObjectURL files pg"
| "apply_op (Remove index) pg = removeImage index pg"
| "apply_op (Generate env w) pg = fst (generateDescriptionAndKeywords env pg w)"
| "apply_op Clear pg = clearAll pg"

fun run_ops :: "'w op list \<Rightarrow> result page \<Rightarrow> result page" where
  "run_ops [] pg = pg"
| "run_ops (op # ops) pg = run_ops ops (apply_op op pg)"

datatype op_jsx =
    Select_jsx "jsfile \<Rightarrow> jsstring" "jsfile list"
  | Remove_jsx int
  | Generate_jsx
  | Clear_jsx

fun apply_op_jsx :: "op_jsx \<Rightarrow> placeholder page \<Rightarrow> placeholder page" where
  "apply_op_jsx (Select_jsx createObjectURL files) pg = handleImageUpload_jsx createObjectURL files pg"
| "apply_op_jsx (Remove_jsx index) pg = removeImage index pg"
| "apply_op_jsx Generate_jsx pg = generateDescriptionAndKeywords_jsx pg"
| "apply_op_jsx Clear_jsx pg = clearAll_jsx pg"

fun run_ops_jsx :: "op_jsx list \<Rightarrow> placeholder page \<Rightarrow> placeholder page" where
  "run_ops_jsx [] pg = pg"
| "run_ops_jsx (op # ops) pg = run_ops_jsx ops (apply_op_jsx op pg)"

section \<open>Reading a list of outcomes\<close>

fun successes :: "('e + 'a) list \<Rightarrow> 'a list" where
  "successes [] = []"
| "successes (Inr r # os) = r # successes os"
| "successes (Inl e # os) = successes os"

fun failures :: "('e + 'a) list \<Rightarrow> 'e list" where
  "failures [] = []"
| "failures (Inl e # os) = e # failures os"
| "failures (Inr r # os) = failures os"

section \<open>Example values\<close>

definition failing_service :: "jsvalue \<Rightarrow> exn + jsvalue" where
  "failing_service v = Inl (Error (js_lit ''connect ECONNREFUSED''))"

definition post_request :: api_request where
  "post_request = \<lparr>req_method = Some (js_lit ''POST''), req_body = Null\<rparr>"

definition get_request :: api_request where
  "get_request = \<lparr>req_method = Some (js_lit ''GET''), req_body = Null\<rparr>"

definition example_file :: "string \<Rightarrow> jsfile" where
  "example_file n = \<lparr>fileName = js_lit n, fileType = js_lit ''image/png'', fileBytes = []\<rparr>"

definition example_url :: "jsfile \<Rightarrow> jsstring" where
  "example_url f = js_lit ''blob:'' @ fileName f"

definition example_image :: "string \<Rightarrow> image" where
  "example_image n = \<lparr>file' = example_file n, preview = example_url (example_file n)\<rparr>"

definition six_files :: "jsfile list" where
  "six_files =
     [example_file ''a.png'', example_file ''b.png'', example_file ''c.png'',
      example_file ''d.png'', example_file ''e.png'', example_file ''f.png'']"

definition example_content :: jsstring where
  "example_content =
     js_lit ''Description: A dog.'' @ [0x000A] @
     js_lit ''Keywords: dog, pet'' @ [0x000A] @
     js_lit ''Tokens used: 7''"

definition example_reply :: jsvalue where
  "example_reply =
     Object
       [(js_lit ''choices'',
           Array
             [Object
                [(js_lit ''message'',
                    Object [(js_lit ''role'', String (js_lit ''assistant'')),
                            (js_lit ''content'', String example_content)])]])]"

definition example_result :: result where
  "example_result =
     \<lparr>description = js_lit ''A dog.'',
      keywords' = [js_lit ''dog'', js_lit ''pet''],
      tokensUsed = Exact 7\<rparr>"

text \<open>
  A browser whose world counts the requests sent: the first \<^verbatim>\<open>fetch\<close> is rejected, every
  later one is answered with \<open>example_reply\<close>.
\<close>

definition example_browser :: "nat browser" where
  "example_browser =
     \<lparr>readAsDataURL = (\<lambda>f w. (Inr (js_lit ''data:image/png;base64,AAAA''), w)),
      fetch = (\<lambda>request w.
                 (if w = 0 then Inl TypeError
                  else Inr \<lparr>ok = True, json = Inr example_reply\<rparr>,
                  Suc w))\<rparr>"

definition empty_page :: "'r page" where
  "empty_page =
     \<lparr>images = [], results = [], isLoading = False, fileInput = Some [],
      toasts = [], console = []\<rparr>"

definition two_images_page :: "result page" where
  "two_images_page =
     \<lparr>images = [example_image ''a.png'', example_image ''b.png''], results = [],
      isLoading = False, fileInput = Some [], toasts = [], console = []\<rparr>"

definition three_images_page :: "result page" where
  "three_images_page =
     \<lparr>images = [example_image ''a.png'', example_image ''b.png'', example_image ''c.png''],
      results = [example_result, example_result\<lparr>description := js_lit ''A cat.''\<rparr>],
      isLoading = False, fileInput = Some [], toasts = [], console = []\<rparr>"

text \<open>The page as index.tsx has it after the user has picked one file.\<close>

definition one_selected_page :: "result page" where
  "one_selected_page = handleImageUpload example_url [example_file ''a.png''] empty_page"

text \<open>
  A page of Index.jsx holding one image with its result, the file input still showing
  the name of the file picked.
\<close>

definition one_result_page_jsx :: "placeholder page" where
  "one_result_page_jsx =
     \<lparr>images = [example_image ''a.png''],
      results = [\<lparr>p_description = js_lit ''Placeholder description for image 1.'',
                  p_keywords = [js_lit ''keyword1'']\<rparr>],
      isLoading = False, fileInput = Some (js_lit ''a.png''), toasts = [], console = []\<rparr>"

section \<open>Properties of the response parser\<close>

text \<open>
  C4. The text \<^verbatim>\<open>Description: A cat.\<close>, line feed, \<^verbatim>\<open>Keywords: cat, pet, animal\<close>, line
  feed, \<^verbatim>\<open>Tokens used: 42\<close> parses to the description \<^verbatim>\<open>A cat.\<close>, the keywords
  \<^verbatim>\<open>cat\<close>, \<^verbatim>\<open>pet\<close>, \<^verbatim>\<open>animal\<close> and the token count 42.
\<close>

theorem parseResponse_round_trip:
  "parseResponse
     (String (js_lit ''Description: A cat.'' @ [0x000A] @
              js_lit ''Keywords: cat, pet, animal'' @ [0x000A] @
              js_lit ''Tokens used: 42'')) =
   Inr \<lparr>description = js_lit ''A cat.'',
        keywords' = [js_lit ''cat'', js_lit ''pet'', js_lit ''animal''],
        tokensUsed = Exact 42\<rparr>"
  by (simp add: parseResponse_def js_lit_def match_here_def isLineTerminator_def isWhiteSpace_def
      trim_def digit_run_def isDigit_def parseInt_def)

text \<open>A match of a pattern contains the pattern's literal.\<close>

lemma match_here_sublist: "match_here lit grp s = Some g \<Longrightarrow> sublist lit s"
  by (auto simp: match_here_def split: if_splits)

lemma regexp_match_sublist: "regexp_match lit grp s = Some g \<Longrightarrow> sublist lit s"
proof (induction s)
  case Nil
  then show ?case by (auto dest: match_here_sublist)
next
  case (Cons c cs)
  then show ?case
    by (auto split: option.splits dest: match_here_sublist simp: sublist_Cons_right)
qed

lemma marker_absent:
  assumes "\<not> sublist marker s"
  shows "regexp_match (marker @ [0x0020]) grp s = None"
proof (rule ccontr)
  assume "regexp_match (marker @ [0x0020]) grp s \<noteq> None"
  then obtain g where "regexp_match (marker @ [0x0020]) grp s = Some g"
    by auto
  then have inside: "sublist (marker @ [0x0020]) s"
    by (rule regexp_match_sublist)
  have "sublist marker (marker @ [0x0020])"
    by simp
  from this inside have "sublist marker s"
    by (rule sublist_order.order_trans)
  with assms show False by simp
qed

text \<open>
  C5. On every string the parser returns a result and does not throw. When the text
  \<^verbatim>\<open>Description:\<close> occurs nowhere in the input the description is the empty string; when
  \<^verbatim>\<open>Keywords:\<close> occurs nowhere the keyword list is empty; when \<^verbatim>\<open>Tokens used:\<close> occurs
  nowhere the token count is 0.
\<close>

theorem parseResponse_defaults:
  "\<exists>r. parseResponse (String s) = Inr r \<and>
       (\<not> sublist (js_lit ''Description:'') s \<longrightarrow> description r = []) \<and>
       (\<not> sublist (js_lit ''Keywords:'') s \<longrightarrow> keywords' r = []) \<and>
       (\<not> sublist (js_lit ''Tokens used:'') s \<longrightarrow> tokensUsed r = Exact 0)"
proof -
  have d: "js_lit ''Description: '' = js_lit ''Description:'' @ [0x0020]"
    and k: "js_lit ''Keywords: '' = js_lit ''Keywords:'' @ [0x0020]"
    and t: "js_lit ''Tokens used: '' = js_lit ''Tokens used:'' @ [0x0020]"
    by (simp_all add: js_lit_def)
  show ?thesis
    unfolding parseResponse_def d k t by (simp add: Let_def marker_absent)
qed

theorem parseResponse_defaults_witness:
  "\<not> sublist (js_lit ''Description:'') (js_lit ''No markers here'') \<and>
   \<not> sublist (js_lit ''Keywords:'') (js_lit ''No markers here'') \<and>
   \<not> sublist (js_lit ''Tokens used:'') (js_lit ''No markers here'') \<and>
   parseResponse (String (js_lit ''No markers here'')) =
     Inr \<lparr>description = [], keywords' = [], tokensUsed = Exact 0\<rparr>"
proof -
  have a: "\<not> sublist (js_lit ''Description:'') (js_lit ''No markers here'')"
    by (simp add: js_lit_def sublist_Cons_right)
  have b: "\<not> sublist (js_lit ''Keywords:'') (js_lit ''No markers here'')"
    by (simp add: js_lit_def sublist_Cons_right)
  have c: "\<not> sublist (js_lit ''Tokens used:'') (js_lit ''No markers here'')"
    by (simp add: js_lit_def sublist_Cons_right)
  from parseResponse_defaults [of "js_lit ''No markers here''"] a b c
  obtain r where "parseResponse (String (js_lit ''No markers here'')) = Inr r"
    and "description r = []" and "keywords' r = []" and "tokensUsed r = Exact 0"
    by blast
  then have "parseResponse (String (js_lit ''No markers here'')) =
      Inr \<lparr>description = [], keywords' = [], tokensUsed = Exact 0\<rparr>"
    by (cases r) simp
  with a b c show ?thesis by simp
qed

section \<open>Properties of the proxy endpoint\<close>

text \<open>
  C1. When a POST request reaches the handler and the call to the completion service
  throws, the response has status 500 and the body \<^verbatim>\<open>{"error": "Error processing your
  request"}\<close>. The body is this one value whatever was thrown; the error goes to the
  server console only.
\<close>

theorem handler_failure_is_generic:
  assumes "req_method req = Some (js_lit ''POST'')"
    and "create (req_body req) = Inl err"
  shows "sent (handler create req) =
           \<lparr>res_status = 500,
            res_json = Object [(js_lit ''error'',
                                String (js_lit ''Error processing your request''))]\<rparr> \<and>
         logged (handler create req) = [(js_lit ''OpenAI API error:'', err)]"
  using assms by (simp add: handler_def)

theorem handler_failure_is_generic_witness:
  "req_method post_request = Some (js_lit ''POST'') \<and>
   failing_service (req_body post_request) = Inl (Error (js_lit ''connect ECONNREFUSED'')) \<and>
   sent (handler failing_service post_request) =
     \<lparr>res_status = 500,
      res_json = Object [(js_lit ''error'',
                          String (js_lit ''Error processing your request''))]\<rparr>"
proof -
  have m: "req_method post_request = Some (js_lit ''POST'')"
    by (simp add: post_request_def)
  have f: "failing_service (req_body post_request) = Inl (Error (js_lit ''connect ECONNREFUSED''))"
    by (simp add: failing_service_def)
  from handler_failure_is_generic [of post_request failing_service, OF m f] m f
  show ?thesis by simp
qed

text \<open>
  C2. A request whose method is not POST is answered with status 405 and the body
  \<^verbatim>\<open>{"error": "Method not allowed"}\<close>, and nothing is handed to the completion service.
\<close>

theorem handler_rejects_other_methods:
  assumes "req_method req \<noteq> Some (js_lit ''POST'')"
  shows "sent (handler create req) =
           \<lparr>res_status = 405,
            res_json = Object [(js_lit ''error'', String (js_lit ''Method not allowed''))]\<rparr> \<and>
         created (handler create req) = []"
  using assms by (simp add: handler_def)

theorem handler_rejects_other_methods_witness:
  "req_method get_request \<noteq> Some (js_lit ''POST'') \<and>
   sent (handler failing_service get_request) =
     \<lparr>res_status = 405,
      res_json = Object [(js_lit ''error'', String (js_lit ''Method not allowed''))]\<rparr> \<and>
   created (handler failing_service get_request) = []"
proof -
  have m: "req_method get_request \<noteq> Some (js_lit ''POST'')"
    by (simp add: get_request_def js_lit_def)
  from handler_rejects_other_methods [OF m] m show ?thesis by simp
qed

section \<open>Properties of selecting, removing and clearing\<close>

text \<open>
  C3. A selection of more than 5 files leaves the images and the results as they were
  and shows the error notification, in index.tsx and in Index.jsx alike.
\<close>

theorem oversized_selection_rejected:
  assumes "length files > 5"
  shows "images (handleImageUpload u files pg) = images pg \<and>
         results (handleImageUpload u files pg) = results pg \<and>
         toasts (handleImageUpload u files pg) = toasts pg @ [too_many_images] \<and>
         images (handleImageUpload_jsx u files pg) = images pg \<and>
         results (handleImageUpload_jsx u files pg) = results pg \<and>
         toasts (handleImageUpload_jsx u files pg) = toasts pg @ [too_many_images]"
  using assms by (simp add: handleImageUpload_def handleImageUpload_jsx_def MAX_IMAGES_def)

theorem oversized_selection_rejected_witness:
  "length six_files > 5 \<and>
   images (handleImageUpload example_url six_files three_images_page) = images three_images_page \<and>
   results (handleImageUpload example_url six_files three_images_page) = results three_images_page \<and>
   toasts (handleImageUpload example_url six_files three_images_page) = [too_many_images]"
proof -
  have n: "length six_files > 5"
    by (simp add: six_files_def)
  have t: "toasts three_images_page = []"
    by (simp add: three_images_page_def)
  from oversized_selection_rejected [OF n, of example_url three_images_page] n t
  show ?thesis by simp
qed

text \<open>Filtering out one index drops the entry at that index and nothing else.\<close>

lemma filter_enumerate_all:
  "n < m \<Longrightarrow> filter (\<lambda>(i, x). i \<noteq> n) (enumerate m xs) = enumerate m xs"
  by (induction xs arbitrary: m) auto

lemma filter_enumerate_drop:
  "map snd (filter (\<lambda>(i, x). i \<noteq> n + k) (enumerate n xs)) = take k xs @ drop (Suc k) xs"
proof (induction xs arbitrary: n k)
  case Nil
  then show ?case by simp
next
  case (Cons x xs)
  show ?case
  proof (cases k)
    case 0
    then show ?thesis by (simp add: filter_enumerate_all)
  next
    case (Suc k')
    with Cons.IH [of "Suc n" k'] show ?thesis by simp
  qed
qed

lemma filter_index_neq:
  "filter_index (\<lambda>_ i. int i \<noteq> index) xs =
     (if 0 \<le> index then take (nat index) xs @ drop (Suc (nat index)) xs else xs)"
proof (cases "0 \<le> index")
  case True
  then have "(\<lambda>(i::nat, x::'a). int i \<noteq> index) = (\<lambda>(i, x). i \<noteq> 0 + nat index)"
    by (auto simp: fun_eq_iff)
  then show ?thesis
    using True filter_enumerate_drop [of 0 "nat index" xs] by (simp add: filter_index_def)
next
  case False
  then have "(\<lambda>(i::nat, x::'a). int i \<noteq> index) = (\<lambda>(i, x). True)"
    by (auto simp: fun_eq_iff)
  then show ?thesis
    using False by (simp add: filter_index_def)
qed

text \<open>
  C7. For an index \<open>i\<close> with \<open>0 \<le> i < length images\<close>, \<^verbatim>\<open>removeImage(i)\<close> leaves the images
  before position \<open>i\<close> followed by the images after it, one entry fewer; the results
  lose the entry at position \<open>i\<close> in the same way when there is one, and are unchanged
  when there is none.
\<close>

theorem removeImage_removes_position:
  assumes "0 \<le> i" and "i < int (length (images pg))"
  shows "images (removeImage i pg) = take (nat i) (images pg) @ drop (Suc (nat i)) (images pg) \<and>
         length (images (removeImage i pg)) = length (images pg) - 1 \<and>
         results (removeImage i pg) =
           (if nat i < length (results pg)
            then take (nat i) (results pg) @ drop (Suc (nat i)) (results pg)
            else results pg)"
  using assms by (auto simp: removeImage_def filter_index_neq Let_def)

theorem removeImage_removes_position_witness:
  "(0::int) \<le> 1 \<and> 1 < int (length (images three_images_page)) \<and>
   images (removeImage 1 three_images_page) = [example_image ''a.png'', example_image ''c.png''] \<and>
   results (removeImage 1 three_images_page) = [example_result]"
proof -
  have a: "(0::int) \<le> 1"
    by simp
  have b: "1 < int (length (images three_images_page))"
    by (simp add: three_images_page_def)
  from removeImage_removes_position [OF a b] a b show ?thesis
    by (simp add: three_images_page_def)
qed

text \<open>
  C8, as the claim has it, fails on Index.jsx: there a selection is added to the images
  and the results are not touched. One more file picked on a page that holds an image
  and its result is accepted, and the result is still there.
\<close>

theorem select_jsx_keeps_results:
  "length [example_file ''b.png''] \<le> MAX_IMAGES \<and>
   images (handleImageUpload_jsx example_url [example_file ''b.png''] one_result_page_jsx) =
     [example_image ''a.png'', example_image ''b.png''] \<and>
   results (handleImageUpload_jsx example_url [example_file ''b.png''] one_result_page_jsx) \<noteq> []"
  by (simp add: handleImageUpload_jsx_def MAX_IMAGES_def one_result_page_jsx_def example_image_def)

text \<open>
  C8, amended. In index.tsx a selection of at most 5 files replaces the images by the
  files chosen and leaves the results empty. In Index.jsx a selection leaves the
  results as they were.
\<close>

theorem accepted_selection_results:
  assumes "length files \<le> MAX_IMAGES"
  shows "results (handleImageUpload u files pg) = [] \<and>
         images (handleImageUpload u files pg) =
           map (\<lambda>f. \<lparr>file' = f, preview = u f\<rparr>) files \<and>
         results (handleImageUpload_jsx u files pg') = results pg'"
  using assms by (simp add: handleImageUpload_def handleImageUpload_jsx_def Let_def)

theorem accepted_selection_results_witness:
  "length [example_file ''b.png''] \<le> MAX_IMAGES \<and>
   results (handleImageUpload example_url [example_file ''b.png''] three_images_page) = [] \<and>
   images (handleImageUpload example_url [example_file ''b.png''] three_images_page) =
     [example_image ''b.png''] \<and>
   results (handleImageUpload_jsx example_url [example_file ''b.png''] one_result_page_jsx) =
     results one_result_page_jsx"
proof -
  have n: "length [example_file ''b.png''] \<le> MAX_IMAGES"
    by (simp add: MAX_IMAGES_def)
  from accepted_selection_results [OF n, of example_url three_images_page one_result_page_jsx] n
  show ?thesis by (simp add: example_image_def)
qed

text \<open>
  In index.tsx \<^verbatim>\<open>clearAll\<close> empties both lists and, where a file input is mounted, sets
  its value to the empty string.
\<close>

lemma clearAll_resets_file_input:
  "images (clearAll pg) = [] \<and> results (clearAll pg) = [] \<and>
   fileInput (clearAll pg) = map_option (\<lambda>_. []) (fileInput pg)"
  by (simp add: clearAll_def Let_def split: option.splits)

text \<open>
  C9 on Index.jsx. \<^verbatim>\<open>clearAll\<close> empties both lists and does nothing else: a file input
  that shows \<^verbatim>\<open>a.png\<close> before the call shows it after the call.
\<close>

theorem clearAll_jsx_keeps_file_input:
  "images (clearAll_jsx one_result_page_jsx) = [] \<and>
   results (clearAll_jsx one_result_page_jsx) = [] \<and>
   fileInput (clearAll_jsx one_result_page_jsx) = Some (js_lit ''a.png'')"
  by (simp add: clearAll_jsx_def one_result_page_jsx_def Let_def)

section \<open>Properties of generating\<close>

lemma length_outcomes: "length (outcomes env imgs w) = length imgs"
  by (induction imgs arbitrary: w) (auto split: prod.splits)

lemma length_successes: "length (successes os) \<le> length os"
  by (induction os rule: successes.induct) auto

lemma nth_Inl_failures: "k < length os \<Longrightarrow> os ! k = Inl e \<Longrightarrow> e \<in> set (failures os)"
proof (induction os arbitrary: k rule: failures.induct)
  case 1
  then show ?case by simp
next
  case (2 e' os)
  then show ?case by (cases k) auto
next
  case (3 r os)
  then show ?case by (cases k) auto
qed

lemma nth_Inr_successes: "j < length os \<Longrightarrow> os ! j = Inr r \<Longrightarrow> r \<in> set (successes os)"
proof (induction os arbitrary: j rule: successes.induct)
  case 1
  then show ?case by simp
next
  case (2 r' os)
  then show ?case by (cases j) auto
next
  case (3 e os)
  then show ?case by (cases j) auto
qed

text \<open>
  The loop visits every image: it appends the successful outcomes to the accumulator in
  order, and for each failed one it logs the error and shows the notification.
\<close>

lemma for_images_results:
  "fst (for_images env imgs acc pg w) = acc @ successes (outcomes env imgs w)"
  by (induction imgs arbitrary: acc pg w) (auto split: prod.splits sum.splits)

lemma for_images_page:
  "fst (snd (for_images env imgs acc pg w)) =
     pg\<lparr>console := console pg @
                     map (Pair (js_lit ''Error processing image:'')) (failures (outcomes env imgs w)),
        toasts := toasts pg @ map (\<lambda>_. failed_to_process) (failures (outcomes env imgs w))\<rparr>"
  by (induction imgs arbitrary: acc pg w) (auto split: prod.splits sum.splits)

lemma generate_resume_page:
  "fst (generate_resume env captured pg w) =
     pg\<lparr>results := successes (outcomes env captured w),
        isLoading := False,
        console := console pg @
                     map (Pair (js_lit ''Error processing image:'')) (failures (outcomes env captured w)),
        toasts := toasts pg @ map (\<lambda>_. failed_to_process) (failures (outcomes env captured w))\<rparr>"
proof -
  obtain a b c where f: "for_images env captured [] pg w = (a, b, c)"
    by (cases "for_images env captured [] pg w") auto
  from for_images_results [of env captured "[]" pg w]
       for_images_page [of env captured "[]" pg w] f
  show ?thesis
    by (simp add: generate_resume_def)
qed

lemma generate_page:
  "fst (generateDescriptionAndKeywords env pg w) =
     pg\<lparr>results := successes (outcomes env (images pg) w),
        isLoading := False,
        console := console pg @
                     map (Pair (js_lit ''Error processing image:''))
                       (failures (outcomes env (images pg) w)),
        toasts := toasts pg @ map (\<lambda>_. failed_to_process) (failures (outcomes env (images pg) w))\<rparr>"
  by (simp add: generateDescriptionAndKeywords_def generate_start_def generate_resume_page)

text \<open>
  C6. Let the pipeline fail for the image at position \<open>k\<close>. Then the call still has an
  outcome for every image; its results are the entries of all images whose pipeline
  succeeded, in order; one notification is shown and one console error written per
  failed image, the one at \<open>k\<close> among them; and every image after \<open>k\<close> whose pipeline
  succeeded has its entry in the results.
\<close>

theorem generate_continues_after_failure:
  assumes "k < length (images pg)"
    and "outcomes env (images pg) w ! k = Inl e"
  shows "let os = outcomes env (images pg) w;
             pg' = fst (generateDescriptionAndKeywords env pg w)
         in length os = length (images pg) \<and>
            results pg' = successes os \<and>
            toasts pg' = toasts pg @ map (\<lambda>_. failed_to_process) (failures os) \<and>
            console pg' =
              console pg @ map (Pair (js_lit ''Error processing image:'')) (failures os) \<and>
            e \<in> set (failures os) \<and>
            (\<forall>j r. k < j \<and> j < length os \<and> os ! j = Inr r \<longrightarrow> r \<in> set (results pg'))"
proof -
  let ?os = "outcomes env (images pg) w"
  have len: "length ?os = length (images pg)"
    by (rule length_outcomes)
  have e: "e \<in> set (failures ?os)"
    using assms len by (simp add: nth_Inl_failures)
  have later: "\<forall>j r. k < j \<and> j < length ?os \<and> ?os ! j = Inr r \<longrightarrow> r \<in> set (successes ?os)"
    by (auto intro: nth_Inr_successes)
  show ?thesis
    unfolding Let_def generate_page using len e later by simp
qed

text \<open>The example browser: the request of the first image is rejected, the second answered.\<close>

lemma parse_example: "parseResponse (String example_content) = Inr example_result"
  by (simp add: parseResponse_def js_lit_def match_here_def isLineTerminator_def isWhiteSpace_def
      trim_def digit_run_def isDigit_def parseInt_def example_result_def example_content_def)

lemma content_example: "content_of example_reply = Inr (String example_content)"
  by (simp add: content_of_def example_reply_def js_lit_def)

lemma process_example:
  "process_image example_browser img w =
     (if w = 0 then Inl TypeError else Inr example_result, Suc w)"
  by (simp add: process_image_def example_browser_def convertToBase64_def content_example
      parse_example)

lemma outcomes_two_images:
  "outcomes example_browser (images two_images_page) 0 = [Inl TypeError, Inr example_result]"
  by (simp add: two_images_page_def process_example)

theorem generate_continues_after_failure_witness:
  "0 < length (images two_images_page) \<and>
   outcomes example_browser (images two_images_page) 0 ! 0 = Inl TypeError \<and>
   results (fst (generateDescriptionAndKeywords example_browser two_images_page 0)) =
     [example_result] \<and>
   toasts (fst (generateDescriptionAndKeywords example_browser two_images_page 0)) =
     [failed_to_process]"
proof -
  have k: "0 < length (images two_images_page)"
    by (simp add: two_images_page_def)
  have f: "outcomes example_browser (images two_images_page) 0 ! 0 = Inl TypeError"
    by (simp add: outcomes_two_images)
  have t: "toasts two_images_page = []"
    by (simp add: two_images_page_def)
  from generate_continues_after_failure [OF k f] k f show ?thesis
    by (simp add: Let_def outcomes_two_images t)
qed

section \<open>The two lists over sequences of operations\<close>

text \<open>
  Every operation that runs to its end keeps the results no longer than the images,
  and so does every sequence of such operations, on both pages.
\<close>

lemma removeImage_aligned:
  assumes "length (results pg) \<le> length (images pg)"
  shows "length (results (removeImage index pg)) \<le> length (images (removeImage index pg))"
  using assms by (auto simp: removeImage_def filter_index_neq Let_def)

lemma apply_op_aligned:
  assumes "length (results pg) \<le> length (images pg)"
  shows "length (results (apply_op op pg)) \<le> length (images (apply_op op pg))"
proof (cases op)
  case (Select u files)
  then show ?thesis
    using assms by (simp add: handleImageUpload_def Let_def)
next
  case (Remove index)
  then show ?thesis
    using assms by (simp add: removeImage_aligned)
next
  case (Generate env w)
  have "length (successes (outcomes env (images pg) w)) \<le> length (images pg)"
    using length_successes [of "outcomes env (images pg) w"] by (simp add: length_outcomes)
  then show ?thesis
    using Generate by (simp add: generate_page)
next
  case Clear
  then show ?thesis
    by (simp add: clearAll_def Let_def split: option.splits)
qed

lemma run_ops_aligned:
  "length (results pg) \<le> length (images pg) \<Longrightarrow>
   length (results (run_ops ops pg)) \<le> length (images (run_ops ops pg))"
  by (induction ops arbitrary: pg) (auto simp: apply_op_aligned)

lemma apply_op_jsx_aligned:
  assumes "length (results pg) \<le> length (images pg)"
  shows "length (results (apply_op_jsx op pg)) \<le> length (images (apply_op_jsx op pg))"
proof (cases op)
  case (Select_jsx u files)
  then show ?thesis
    using assms by (simp add: handleImageUpload_jsx_def Let_def)
next
  case (Remove_jsx index)
  then show ?thesis
    using assms by (simp add: removeImage_aligned)
next
  case Generate_jsx
  then show ?thesis
    by (simp add: generateDescriptionAndKeywords_jsx_def Let_def)
next
  case Clear_jsx
  then show ?thesis
    by (simp add: clearAll_jsx_def Let_def)
qed

lemma run_ops_jsx_aligned:
  "length (results pg) \<le> length (images pg) \<Longrightarrow>
   length (results (run_ops_jsx ops pg)) \<le> length (images (run_ops_jsx ops pg))"
  by (induction ops arbitrary: pg) (auto simp: apply_op_jsx_aligned)

lemma sequential_ops_aligned:
  assumes "images pg = []" and "results pg = []"
  shows "length (results (run_ops ops pg)) \<le> length (images (run_ops ops pg))"
  using assms by (simp add: run_ops_aligned)

lemma sequential_ops_jsx_aligned:
  assumes "images pg = []" and "results pg = []"
  shows "length (results (run_ops_jsx ops pg)) \<le> length (images (run_ops_jsx ops pg))"
  using assms by (simp add: run_ops_jsx_aligned)

text \<open>
  C10 on index.tsx, with a generation in flight. The user picks one file and starts the
  generation, which holds on to the one image and waits for the browser. Before it
  resumes the user clears the page. The generation then completes for the image it
  held and stores its result: the page has one result and no image, and the row
  rendered for that result reads \<^verbatim>\<open>images[0]\<close>, which is not there.
\<close>

theorem generate_finishing_after_clear:
  "fst (generate_start one_selected_page) = [example_image ''a.png''] \<and>
   images (clearAll (snd (generate_start one_selected_page))) = [] \<and>
   images (fst (generate_resume example_browser
                  (fst (generate_start one_selected_page))
                  (clearAll (snd (generate_start one_selected_page))) 1)) = [] \<and>
   results (fst (generate_resume example_browser
                   (fst (generate_start one_selected_page))
                   (clearAll (snd (generate_start one_selected_page))) 1)) = [example_result]"
  by (simp add: generate_resume_page generate_start_def one_selected_page_def
      handleImageUpload_def MAX_IMAGES_def empty_page_def clearAll_def Let_def
      process_example example_image_def)

end
